theory Spec2Isabelle
  imports Complex_Main "HOL-Library.Sublist"
begin

section \<open>Python values and exceptions\<close>

text \<open>
  The fetcher works on decoded JSON: what \<^verbatim>\<open>response.json()\<close> returns. A JSON
  object is a Python dict; it is modelled as an association list in insertion order,
  read with \<open>map_of\<close> (a dict has no repeated key). Numbers are Python ints; the
  GraphQL schema the fetcher queries has no float field.
\<close>

datatype json =
    JNull
  | JBool bool
  | JInt int
  | JStr string
  | JList "json list"
  | JObj "(string \<times> json) list"

text \<open>The exceptions the modelled code can raise, as values.\<close>

datatype exn =
    AttributeError
  | TypeError
  | KeyError
  | ValueError string
  | RequestException string
  | StopIteration

text \<open>
  A computation that may raise returns \<open>exn + 'a\<close>, \<open>Inl\<close> the exception.
  \<open>andthen\<close> sequences two of them: the first exception raised wins.
\<close>

definition andthen :: "exn + 'a \<Rightarrow> ('a \<Rightarrow> exn + 'b) \<Rightarrow> exn + 'b" where
  "andthen m f = (case m of Inl e \<Rightarrow> Inl e | Inr x \<Rightarrow> f x)"

text \<open>Python truthiness: \<^verbatim>\<open>if v:\<close>, \<^verbatim>\<open>not v\<close>, \<^verbatim>\<open>v or d\<close>.\<close>

fun truthy :: "json \<Rightarrow> bool" where
  "truthy JNull = False"
| "truthy (JBool b) = b"
| "truthy (JInt n) = (n \<noteq> 0)"
| "truthy (JStr s) = (s \<noteq> [])"
| "truthy (JList xs) = (xs \<noteq> [])"
| "truthy (JObj kvs) = (kvs \<noteq> [])"

text \<open>\<^verbatim>\<open>v or {}\<close>\<close>

definition or_empty :: "json \<Rightarrow> json" where
  "or_empty v = (if truthy v then v else JObj [])"

text \<open>
  \<^verbatim>\<open>v.get(k, d)\<close>: only a dict has \<^verbatim>\<open>get\<close>; on None, a number, a string or a
  list the attribute lookup raises AttributeError. A key that is present with the value
  null yields None, not the default.
\<close>

fun py_get :: "json \<Rightarrow> string \<Rightarrow> json \<Rightarrow> exn + json" where
  "py_get (JObj kvs) k d = Inr (case map_of kvs k of None \<Rightarrow> d | Some v \<Rightarrow> v)"
| "py_get _ k d = Inl AttributeError"

text \<open>
  \<^verbatim>\<open>for x in v\<close>: a list yields its elements, a dict its keys, a string its
  characters (one-character strings); None, a number or a boolean is not iterable and
  raises TypeError.
\<close>

fun py_iter :: "json \<Rightarrow> exn + json list" where
  "py_iter (JList xs) = Inr xs"
| "py_iter (JObj kvs) = Inr (map (\<lambda>kv. JStr (fst kv)) kvs)"
| "py_iter (JStr s) = Inr (map (\<lambda>c. JStr [c]) s)"
| "py_iter _ = Inl TypeError"

section \<open>Record extraction (utils.extract\_repo\_data)\<close>

text \<open>
  A dict display \<^verbatim>\<open>{k1: e1, k2: e2, ...}\<close> evaluates its value expressions in order;
  the first one that raises ends the evaluation.
\<close>

fun dict_display :: "(string \<times> (exn + json)) list \<Rightarrow> exn + (string \<times> json) list" where
  "dict_display [] = Inr []"
| "dict_display ((k, e) # es) =
     andthen e (\<lambda>v. andthen (dict_display es) (\<lambda>r. Inr ((k, v) # r)))"

text \<open>\<^verbatim>\<open>[lang.get('name') for lang in nodes if lang]\<close>\<close>

fun languages_comp :: "json list \<Rightarrow> exn + json list" where
  "languages_comp [] = Inr []"
| "languages_comp (lang # rest) =
     (if truthy lang
      then andthen (py_get lang ''name'' JNull) (\<lambda>v.
           andthen (languages_comp rest) (\<lambda>vs. Inr (v # vs)))
      else languages_comp rest)"

text \<open>
  \<^verbatim>\<open>[node.get('topic', {}).get('name') for node in nodes if node and node.get('topic')]\<close>
\<close>

fun topics_comp :: "json list \<Rightarrow> exn + json list" where
  "topics_comp [] = Inr []"
| "topics_comp (node # rest) =
     andthen (if truthy node
              then andthen (py_get node ''topic'' JNull) (\<lambda>t. Inr (truthy t))
              else Inr False) (\<lambda>keep.
       if keep
       then andthen (py_get node ''topic'' (JObj [])) (\<lambda>t.
            andthen (py_get t ''name'' JNull) (\<lambda>v.
            andthen (topics_comp rest) (\<lambda>vs. Inr (v # vs))))
       else topics_comp rest)"

text \<open>
  Lines 104-108: \<^verbatim>\<open>languages_nodes = repo_node.get('languages', {})\<close>, then the
  comprehension over \<^verbatim>\<open>languages_nodes.get('nodes', [])\<close> when it is truthy, else
  \<^verbatim>\<open>[]\<close>.
\<close>

definition extract_languages :: "json \<Rightarrow> exn + json list" where
  "extract_languages repo_node =
     andthen (py_get repo_node ''languages'' (JObj [])) (\<lambda>languages_nodes.
       if truthy languages_nodes
       then andthen (py_get languages_nodes ''nodes'' (JList [])) (\<lambda>ns.
            andthen (py_iter ns) languages_comp)
       else Inr [])"

text \<open>Lines 111-119, the same shape for \<^verbatim>\<open>repositoryTopics\<close>.\<close>

definition extract_topics :: "json \<Rightarrow> exn + json list" where
  "extract_topics repo_node =
     andthen (py_get repo_node ''repositoryTopics'' (JObj [])) (\<lambda>topics_data.
       if truthy topics_data
       then andthen (py_get topics_data ''nodes'' (JList [])) (\<lambda>ns.
            andthen (py_iter ns) topics_comp)
       else Inr [])"

text \<open>
  Lines 122-123: \<^verbatim>\<open>readme_obj = repo_node.get('object')\<close>;
  \<^verbatim>\<open>readme_obj.get('text', '') if readme_obj else ''\<close>.
\<close>

definition extract_readme :: "json \<Rightarrow> exn + json" where
  "extract_readme repo_node =
     andthen (py_get repo_node ''object'' JNull) (\<lambda>readme_obj.
       if truthy readme_obj then py_get readme_obj ''text'' (JStr '''')
       else Inr (JStr ''''))"

text \<open>
  \<^verbatim>\<open>d.get(k, {}).get('totalCount', 0) if d.get(k) else 0\<close>, the expression of the
  fields watchers, open\_issues and owner\_followers (lines 145, 146, 173).
\<close>

definition total_count :: "json \<Rightarrow> string \<Rightarrow> exn + json" where
  "total_count d k =
     andthen (py_get d k JNull) (\<lambda>c.
       if truthy c
       then andthen (py_get d k (JObj [])) (\<lambda>sub. py_get sub ''totalCount'' (JInt 0))
       else Inr (JInt 0))"

text \<open>
  The function itself. A falsy node (None, the empty dict) returns the empty dict
  at once; otherwise the locals are computed in the order of the source and the
  result is the dict display of lines 131-178.
\<close>

definition extract_repo_data :: "json \<Rightarrow> exn + (string \<times> json) list" where
  "extract_repo_data repo_node =
     (if \<not> truthy repo_node then Inr []
      else
        andthen (py_get repo_node ''owner'' (JObj [])) (\<lambda>owner0.
        let owner = or_empty owner0 in
        andthen (py_get owner ''__typename'' (JStr '''')) (\<lambda>owner_typename.
        andthen (extract_languages repo_node) (\<lambda>languages.
        andthen (extract_topics repo_node) (\<lambda>topics.
        andthen (extract_readme repo_node) (\<lambda>readme_content.
        andthen (py_get repo_node ''licenseInfo'' (JObj [])) (\<lambda>license0.
        let license_info = or_empty license0 in
        andthen (py_get repo_node ''primaryLanguage'' (JObj [])) (\<lambda>primary0.
        let primary_lang = or_empty primary0 in
        dict_display [
          (''nwo'', py_get repo_node ''nameWithOwner'' (JStr '''')),
          (''name'', py_get repo_node ''name'' (JStr '''')),
          (''description'', py_get repo_node ''description'' (JStr '''')),
          (''url'', py_get repo_node ''url'' (JStr '''')),
          (''homepage_url'', py_get repo_node ''homepageUrl'' (JStr '''')),
          (''created_at'', py_get repo_node ''createdAt'' (JStr '''')),
          (''updated_at'', py_get repo_node ''updatedAt'' (JStr '''')),
          (''pushed_at'', py_get repo_node ''pushedAt'' (JStr '''')),
          (''stars'', py_get repo_node ''stargazerCount'' (JInt 0)),
          (''forks'', py_get repo_node ''forkCount'' (JInt 0)),
          (''watchers'', total_count repo_node ''watchers''),
          (''open_issues'', total_count repo_node ''issues''),
          (''disk_usage_kb'', py_get repo_node ''diskUsage'' (JInt 0)),
          (''primary_language'', py_get primary_lang ''name'' (JStr '''')),
          (''languages'', Inr (JList languages)),
          (''topics'', Inr (JList topics)),
          (''is_fork'', py_get repo_node ''isFork'' (JBool False)),
          (''is_archived'', py_get repo_node ''isArchived'' (JBool False)),
          (''is_private'', py_get repo_node ''isPrivate'' (JBool False)),
          (''is_template'', py_get repo_node ''isTemplate'' (JBool False)),
          (''has_wiki'', py_get repo_node ''hasWikiEnabled'' (JBool False)),
          (''has_issues'', py_get repo_node ''hasIssuesEnabled'' (JBool False)),
          (''license_key'', py_get license_info ''key'' (JStr '''')),
          (''license_name'', py_get license_info ''name'' (JStr '''')),
          (''owner_login'', py_get owner ''login'' (JStr '''')),
          (''owner_type'', Inr owner_typename),
          (''owner_location'', py_get owner ''location'' (JStr '''')),
          (''owner_company'',
             if owner_typename = JStr ''User'' then py_get owner ''company'' (JStr '''')
             else Inr (JStr '''')),
          (''owner_bio'',
             if owner_typename = JStr ''User'' then py_get owner ''bio'' (JStr '''')
             else py_get owner ''description'' (JStr '''')),
          (''owner_email'', py_get owner ''email'' (JStr '''')),
          (''owner_followers'', total_count owner ''followers''),
          (''owner_created_at'', py_get owner ''createdAt'' (JStr '''')),
          (''readme_content'', Inr readme_content)
        ]))))))))"

text \<open>The keys of a Record, in the order of the dict display.\<close>

definition record_keys :: "string list" where
  "record_keys =
     [''nwo'', ''name'', ''description'', ''url'', ''homepage_url'', ''created_at'',
      ''updated_at'', ''pushed_at'', ''stars'', ''forks'', ''watchers'', ''open_issues'',
      ''disk_usage_kb'', ''primary_language'', ''languages'', ''topics'', ''is_fork'',
      ''is_archived'', ''is_private'', ''is_template'', ''has_wiki'', ''has_issues'',
      ''license_key'', ''license_name'', ''owner_login'', ''owner_type'',
      ''owner_location'', ''owner_company'', ''owner_bio'', ''owner_email'',
      ''owner_followers'', ''owner_created_at'', ''readme_content'']"

text \<open>
  Reading a node without raising: \<open>lookup\<close> is the dict lookup (None when the key is
  absent or the value is no dict), \<open>get_or\<close> is \<^verbatim>\<open>get\<close> with its default.
\<close>

definition lookup :: "json \<Rightarrow> string \<Rightarrow> json option" where
  "lookup v k = (case v of JObj kvs \<Rightarrow> map_of kvs k | _ \<Rightarrow> None)"

definition get_or :: "json \<Rightarrow> string \<Rightarrow> json \<Rightarrow> json" where
  "get_or v k d = (case lookup v k of None \<Rightarrow> d | Some x \<Rightarrow> x)"

fun is_obj :: "json \<Rightarrow> bool" where
  "is_obj (JObj kvs) = True"
| "is_obj _ = False"

definition missing :: "json \<Rightarrow> string \<Rightarrow> bool" where
  "missing v k = (lookup v k = None \<or> lookup v k = Some JNull)"

definition obj_or_missing :: "json \<Rightarrow> string \<Rightarrow> bool" where
  "obj_or_missing v k = (missing v k \<or> is_obj (get_or v k JNull))"

definition language_nodes_ok :: "json \<Rightarrow> bool" where
  "language_nodes_ok l =
     (case lookup l ''nodes'' of
        None \<Rightarrow> True
      | Some (JList xs) \<Rightarrow> list_all (\<lambda>x. x = JNull \<or> is_obj x) xs
      | Some _ \<Rightarrow> False)"

definition topic_nodes_ok :: "json \<Rightarrow> bool" where
  "topic_nodes_ok t =
     (case lookup t ''nodes'' of
        None \<Rightarrow> True
      | Some (JList xs) \<Rightarrow>
          list_all (\<lambda>x. x = JNull \<or> (is_obj x \<and> obj_or_missing x ''topic'')) xs
      | Some _ \<Rightarrow> False)"

definition wf_node :: "json \<Rightarrow> bool" where
  "wf_node n =
     (is_obj n \<and> truthy n \<and>
      obj_or_missing n ''owner'' \<and> obj_or_missing (get_or n ''owner'' JNull) ''followers'' \<and>
      obj_or_missing n ''languages'' \<and> language_nodes_ok (get_or n ''languages'' JNull) \<and>
      obj_or_missing n ''repositoryTopics'' \<and>
      topic_nodes_ok (get_or n ''repositoryTopics'' JNull) \<and>
      obj_or_missing n ''object'' \<and>
      obj_or_missing n ''licenseInfo'' \<and>
      obj_or_missing n ''primaryLanguage'' \<and>
      obj_or_missing n ''watchers'' \<and>
      obj_or_missing n ''issues'')"

text \<open>
  The documented default of every field, and the upstream key each field is read from:
  directly (a scalar of the node) or through an optional sub-object.
\<close>

definition default_record :: "(string \<times> json) list" where
  "default_record =
     [(''nwo'', JStr ''''), (''name'', JStr ''''), (''description'', JStr ''''),
      (''url'', JStr ''''), (''homepage_url'', JStr ''''), (''created_at'', JStr ''''),
      (''updated_at'', JStr ''''), (''pushed_at'', JStr ''''), (''stars'', JInt 0),
      (''forks'', JInt 0), (''watchers'', JInt 0), (''open_issues'', JInt 0),
      (''disk_usage_kb'', JInt 0), (''primary_language'', JStr ''''),
      (''languages'', JList []), (''topics'', JList []), (''is_fork'', JBool False),
      (''is_archived'', JBool False), (''is_private'', JBool False),
      (''is_template'', JBool False), (''has_wiki'', JBool False),
      (''has_issues'', JBool False), (''license_key'', JStr ''''),
      (''license_name'', JStr ''''), (''owner_login'', JStr ''''),
      (''owner_type'', JStr ''''), (''owner_location'', JStr ''''),
      (''owner_company'', JStr ''''), (''owner_bio'', JStr ''''),
      (''owner_email'', JStr ''''), (''owner_followers'', JInt 0),
      (''owner_created_at'', JStr ''''), (''readme_content'', JStr '''')]"

definition scalar_fields :: "(string \<times> string) list" where
  "scalar_fields =
     [(''nwo'', ''nameWithOwner''), (''name'', ''name''), (''description'', ''description''),
      (''url'', ''url''), (''homepage_url'', ''homepageUrl''), (''created_at'', ''createdAt''),
      (''updated_at'', ''updatedAt''), (''pushed_at'', ''pushedAt''),
      (''stars'', ''stargazerCount''), (''forks'', ''forkCount''),
      (''disk_usage_kb'', ''diskUsage''), (''is_fork'', ''isFork''),
      (''is_archived'', ''isArchived''), (''is_private'', ''isPrivate''),
      (''is_template'', ''isTemplate''), (''has_wiki'', ''hasWikiEnabled''),
      (''has_issues'', ''hasIssuesEnabled'')]"

definition sub_object_fields :: "(string \<times> string) list" where
  "sub_object_fields =
     [(''watchers'', ''watchers''), (''open_issues'', ''issues''),
      (''primary_language'', ''primaryLanguage''), (''languages'', ''languages''),
      (''topics'', ''repositoryTopics''), (''license_key'', ''licenseInfo''),
      (''license_name'', ''licenseInfo''), (''owner_login'', ''owner''),
      (''owner_type'', ''owner''), (''owner_location'', ''owner''),
      (''owner_company'', ''owner''), (''owner_bio'', ''owner''),
      (''owner_email'', ''owner''), (''owner_followers'', ''owner''),
      (''owner_created_at'', ''owner''), (''readme_content'', ''object'')]"






lemma andthen_Inr [simp]: "andthen (Inr x) f = f x"
  by (simp add: andthen_def)

lemma andthen_Inl [simp]: "andthen (Inl e) f = Inl e"
  by (simp add: andthen_def)

lemma py_get_obj: "is_obj v \<Longrightarrow> py_get v k d = Inr (get_or v k d)"
  by (cases v) (simp_all add: get_or_def lookup_def)

lemma is_obj_or_empty: "v = JNull \<or> is_obj v \<Longrightarrow> is_obj (or_empty v)"
  by (cases v) (auto simp: or_empty_def)

lemma get_or_missing_cases:
  "obj_or_missing v k \<Longrightarrow> get_or v k d = d \<or> get_or v k d = JNull \<or> is_obj (get_or v k d)"
  by (auto simp: obj_or_missing_def missing_def get_or_def split: option.splits)

lemma sub_object:
  assumes "obj_or_missing v k"
  shows "is_obj (or_empty (get_or v k (JObj [])))"
    and "missing v k \<Longrightarrow> or_empty (get_or v k (JObj [])) = JObj []"
  using assms
  by (auto simp: obj_or_missing_def missing_def get_or_def or_empty_def split: option.splits)

lemma total_count_ok:
  assumes "is_obj d" "obj_or_missing d k"
  shows "total_count d k =
           Inr (if truthy (get_or d k JNull) then get_or (get_or d k JNull) ''totalCount'' (JInt 0)
                else JInt 0)"
  using assms
  by (auto simp: total_count_def py_get_obj obj_or_missing_def missing_def get_or_def
           split: option.splits)

lemma languages_comp_ok:
  "list_all (\<lambda>x. x = JNull \<or> is_obj x) xs \<Longrightarrow>
     languages_comp xs = Inr (map (\<lambda>x. get_or x ''name'' JNull) (filter truthy xs))"
  by (induction xs) (auto simp: py_get_obj)

lemma topics_comp_ok:
  "list_all (\<lambda>x. x = JNull \<or> (is_obj x \<and> obj_or_missing x ''topic'')) xs \<Longrightarrow>
     \<exists>ts. topics_comp xs = Inr ts"
proof (induction xs)
  case Nil
  then show ?case by simp
next
  case (Cons x xs)
  then obtain ts where ts: "topics_comp xs = Inr ts" by auto
  from Cons.prems have "x = JNull \<or> (is_obj x \<and> obj_or_missing x ''topic'')" by simp
  then show ?case
  proof
    assume "x = JNull"
    then show ?thesis using ts by simp
  next
    assume x: "is_obj x \<and> obj_or_missing x ''topic''"
    then have "get_or x ''topic'' JNull = JNull \<or> is_obj (get_or x ''topic'' JNull)"
      using get_or_missing_cases by blast
    moreover have "truthy (get_or x ''topic'' JNull) \<Longrightarrow> get_or x ''topic'' (JObj []) = get_or x ''topic'' JNull"
      by (auto simp: get_or_def split: option.splits)
    ultimately show ?thesis using x ts
      by (auto simp: py_get_obj)
  qed
qed

lemma extract_languages_ok:
  assumes "is_obj n" "obj_or_missing n ''languages''" "language_nodes_ok (get_or n ''languages'' JNull)"
  shows "\<exists>ls. extract_languages n = Inr ls \<and> (missing n ''languages'' \<longrightarrow> ls = [])"
  using assms
  apply (auto simp: extract_languages_def py_get_obj obj_or_missing_def missing_def get_or_def language_nodes_ok_def languages_comp_ok
           split: option.splits json.splits)
  done


lemma topic_nodes:
  assumes "is_obj t" "topic_nodes_ok t"
  shows "\<exists>ts. andthen (py_get t ''nodes'' (JList [])) (\<lambda>ns. andthen (py_iter ns) topics_comp) = Inr ts"
  using assms topics_comp_ok
  by (auto simp: py_get_obj topic_nodes_ok_def get_or_def split: option.splits json.splits)

lemma extract_topics_ok:
  assumes "is_obj n" "obj_or_missing n ''repositoryTopics''"
    "topic_nodes_ok (get_or n ''repositoryTopics'' JNull)"
  shows "\<exists>ts. extract_topics n = Inr ts \<and> (missing n ''repositoryTopics'' \<longrightarrow> ts = [])"
  using assms topic_nodes[of "get_or n ''repositoryTopics'' JNull"]
  by (auto simp: extract_topics_def py_get_obj obj_or_missing_def missing_def get_or_def
        split: option.splits)

lemma extract_readme_ok:
  assumes "is_obj n" "obj_or_missing n ''object''"
  shows "\<exists>t. extract_readme n = Inr t \<and> (missing n ''object'' \<longrightarrow> t = JStr '''')"
  using assms
  by (auto simp: extract_readme_def py_get_obj obj_or_missing_def missing_def get_or_def
        split: option.splits json.splits)

lemma get_or_empty [simp]: "get_or (JObj []) k d = d"
  by (simp add: get_or_def lookup_def)

lemma get_or_absent: "lookup n k = None \<Longrightarrow> get_or n k d = d"
  by (simp add: get_or_def)

lemma missing_not_truthy: "missing n k \<Longrightarrow> \<not> truthy (get_or n k JNull)"
  by (auto simp: missing_def get_or_def)

lemma if_Inr: "(if c then Inr a else Inr b) = Inr (if c then a else b)"
  by simp

lemma dict_display_Inr:
  "dict_display (map (\<lambda>kv. (fst kv, Inr (snd kv))) kvs) = Inr kvs"
  by (induction kvs) auto

lemma record_lookups:
  assumes "R =
         [(''nwo'', a1), (''name'', a2), (''description'', a3), (''url'', a4),
          (''homepage_url'', a5), (''created_at'', a6), (''updated_at'', a7),
          (''pushed_at'', a8), (''stars'', a9), (''forks'', a10), (''watchers'', a11),
          (''open_issues'', a12), (''disk_usage_kb'', a13),
          (''primary_language'', a14), (''languages'', a15), (''topics'', a16),
          (''is_fork'', a17), (''is_archived'', a18), (''is_private'', a19),
          (''is_template'', a20), (''has_wiki'', a21), (''has_issues'', a22),
          (''license_key'', a23), (''license_name'', a24), (''owner_login'', a25),
          (''owner_type'', a26), (''owner_location'', a27), (''owner_company'', a28),
          (''owner_bio'', a29), (''owner_email'', a30), (''owner_followers'', a31),
          (''owner_created_at'', a32), (''readme_content'', a33)]"
  shows "map_of R ''nwo'' = Some a1 \<and> map_of R ''name'' = Some a2 \<and>
         map_of R ''description'' = Some a3 \<and> map_of R ''url'' = Some a4 \<and>
         map_of R ''homepage_url'' = Some a5 \<and>
         map_of R ''created_at'' = Some a6 \<and>
         map_of R ''updated_at'' = Some a7 \<and>
         map_of R ''pushed_at'' = Some a8 \<and> map_of R ''stars'' = Some a9 \<and>
         map_of R ''forks'' = Some a10 \<and> map_of R ''watchers'' = Some a11 \<and>
         map_of R ''open_issues'' = Some a12 \<and>
         map_of R ''disk_usage_kb'' = Some a13 \<and>
         map_of R ''primary_language'' = Some a14 \<and>
         map_of R ''languages'' = Some a15 \<and> map_of R ''topics'' = Some a16 \<and>
         map_of R ''is_fork'' = Some a17 \<and>
         map_of R ''is_archived'' = Some a18 \<and>
         map_of R ''is_private'' = Some a19 \<and>
         map_of R ''is_template'' = Some a20 \<and>
         map_of R ''has_wiki'' = Some a21 \<and>
         map_of R ''has_issues'' = Some a22 \<and>
         map_of R ''license_key'' = Some a23 \<and>
         map_of R ''license_name'' = Some a24 \<and>
         map_of R ''owner_login'' = Some a25 \<and>
         map_of R ''owner_type'' = Some a26 \<and>
         map_of R ''owner_location'' = Some a27 \<and>
         map_of R ''owner_company'' = Some a28 \<and>
         map_of R ''owner_bio'' = Some a29 \<and>
         map_of R ''owner_email'' = Some a30 \<and>
         map_of R ''owner_followers'' = Some a31 \<and>
         map_of R ''owner_created_at'' = Some a32 \<and>
         map_of R ''readme_content'' = Some a33"
  unfolding assms by simp

text \<open>
  What extraction returns on such a node: the Record with its keys in order, and the
  defaults of the fields whose source is null or absent.
\<close>

lemma extract_repo_data_wf:
  assumes "wf_node n"
  shows "\<exists>r. extract_repo_data n = Inr r \<and> map fst r = record_keys \<and>
           (\<forall>(f, k) \<in> set sub_object_fields.
              missing n k \<longrightarrow> map_of r f = map_of default_record f) \<and>
           (\<forall>(f, k) \<in> set scalar_fields.
              lookup n k = None \<longrightarrow> map_of r f = map_of default_record f) \<and>
           (missing (get_or n ''owner'' JNull) ''followers'' \<longrightarrow>
              map_of r ''owner_followers'' = Some (JInt 0))"
proof -
  from assms have n: "is_obj n" "truthy n" by (simp_all add: wf_node_def)
  define owner where "owner = or_empty (get_or n ''owner'' (JObj []))"
  define license_info where "license_info = or_empty (get_or n ''licenseInfo'' (JObj []))"
  define primary_lang where "primary_lang = or_empty (get_or n ''primaryLanguage'' (JObj []))"
  have ow: "is_obj owner" "missing n ''owner'' \<Longrightarrow> owner = JObj []"
    using assms sub_object[of n "''owner''"] by (simp_all add: wf_node_def owner_def)
  have li: "is_obj license_info" "missing n ''licenseInfo'' \<Longrightarrow> license_info = JObj []"
    using assms sub_object[of n "''licenseInfo''"] by (simp_all add: wf_node_def license_info_def)
  have pl: "is_obj primary_lang" "missing n ''primaryLanguage'' \<Longrightarrow> primary_lang = JObj []"
    using assms sub_object[of n "''primaryLanguage''"] by (simp_all add: wf_node_def primary_lang_def)
  have fo: "obj_or_missing owner ''followers''"
    using assms unfolding wf_node_def owner_def
    by (auto simp: obj_or_missing_def missing_def get_or_def or_empty_def lookup_def
          split: option.splits json.splits)
  have fo0: "missing (get_or n ''owner'' JNull) ''followers'' \<Longrightarrow> \<not> truthy (get_or owner ''followers'' JNull)"
    unfolding owner_def
    by (auto simp: obj_or_missing_def missing_def get_or_def or_empty_def lookup_def
          split: option.splits json.splits)
  obtain ls where ls: "extract_languages n = Inr ls" "missing n ''languages'' \<longrightarrow> ls = []"
    using assms n extract_languages_ok[of n] by (auto simp: wf_node_def)
  obtain ts where ts: "extract_topics n = Inr ts" "missing n ''repositoryTopics'' \<longrightarrow> ts = []"
    using assms n extract_topics_ok[of n] by (auto simp: wf_node_def)
  obtain rd where rd: "extract_readme n = Inr rd" "missing n ''object'' \<longrightarrow> rd = JStr ''''"
    using assms n extract_readme_ok[of n] by (auto simp: wf_node_def)
  have wi: "obj_or_missing n ''watchers''" "obj_or_missing n ''issues''"
    using assms by (simp_all add: wf_node_def)
  note tc = total_count_ok[OF n(1) wi(1)] total_count_ok[OF n(1) wi(2)] total_count_ok[OF ow(1) fo]
  define R where "R =
     [(''nwo'', get_or n ''nameWithOwner'' (JStr '''')),
      (''name'', get_or n ''name'' (JStr '''')),
      (''description'', get_or n ''description'' (JStr '''')),
      (''url'', get_or n ''url'' (JStr '''')),
      (''homepage_url'', get_or n ''homepageUrl'' (JStr '''')),
      (''created_at'', get_or n ''createdAt'' (JStr '''')),
      (''updated_at'', get_or n ''updatedAt'' (JStr '''')),
      (''pushed_at'', get_or n ''pushedAt'' (JStr '''')),
      (''stars'', get_or n ''stargazerCount'' (JInt 0)),
      (''forks'', get_or n ''forkCount'' (JInt 0)),
      (''watchers'', if truthy (get_or n ''watchers'' JNull)
                     then get_or (get_or n ''watchers'' JNull) ''totalCount'' (JInt 0) else JInt 0),
      (''open_issues'', if truthy (get_or n ''issues'' JNull)
                     then get_or (get_or n ''issues'' JNull) ''totalCount'' (JInt 0) else JInt 0),
      (''disk_usage_kb'', get_or n ''diskUsage'' (JInt 0)),
      (''primary_language'', get_or primary_lang ''name'' (JStr '''')),
      (''languages'', JList ls),
      (''topics'', JList ts),
      (''is_fork'', get_or n ''isFork'' (JBool False)),
      (''is_archived'', get_or n ''isArchived'' (JBool False)),
      (''is_private'', get_or n ''isPrivate'' (JBool False)),
      (''is_template'', get_or n ''isTemplate'' (JBool False)),
      (''has_wiki'', get_or n ''hasWikiEnabled'' (JBool False)),
      (''has_issues'', get_or n ''hasIssuesEnabled'' (JBool False)),
      (''license_key'', get_or license_info ''key'' (JStr '''')),
      (''license_name'', get_or license_info ''name'' (JStr '''')),
      (''owner_login'', get_or owner ''login'' (JStr '''')),
      (''owner_type'', get_or owner ''__typename'' (JStr '''')),
      (''owner_location'', get_or owner ''location'' (JStr '''')),
      (''owner_company'', if get_or owner ''__typename'' (JStr '''') = JStr ''User''
                          then get_or owner ''company'' (JStr '''') else JStr ''''),
      (''owner_bio'', if get_or owner ''__typename'' (JStr '''') = JStr ''User''
                      then get_or owner ''bio'' (JStr '''')
                      else get_or owner ''description'' (JStr '''')),
      (''owner_email'', get_or owner ''email'' (JStr '''')),
      (''owner_followers'', if truthy (get_or owner ''followers'' JNull)
                     then get_or (get_or owner ''followers'' JNull) ''totalCount'' (JInt 0) else JInt 0),
      (''owner_created_at'', get_or owner ''createdAt'' (JStr '''')),
      (''readme_content'', rd)]"
  have ex: "extract_repo_data n = Inr R"
    unfolding extract_repo_data_def Let_def
    using n ow(1) li(1) pl(1)
    apply (simp add: py_get_obj ls(1) ts(1) rd(1) tc if_Inr
          owner_def[symmetric] license_info_def[symmetric] primary_lang_def[symmetric]
          del: dict_display.simps split del: if_split cong: if_cong)
    apply (rule trans[OF _ dict_display_Inr])
    apply (simp add: R_def del: dict_display.simps split del: if_split)
    done
  note lr = record_lookups[OF R_def]
  note ld = record_lookups[OF default_record_def]
  have keys: "map fst R = record_keys"
    by (simp add: R_def record_keys_def)
  have subs: "\<forall>(f, k) \<in> set sub_object_fields.
              missing n k \<longrightarrow> map_of R f = map_of default_record f"
    using ow(2) li(2) pl(2) ls(2) ts(2) rd(2)
    by (simp add: sub_object_fields_def lr ld missing_not_truthy)
  have scal: "\<forall>(f, k) \<in> set scalar_fields.
              lookup n k = None \<longrightarrow> map_of R f = map_of default_record f"
    by (simp add: scalar_fields_def lr ld get_or_absent)
  have foll: "missing (get_or n ''owner'' JNull) ''followers'' \<longrightarrow>
              map_of R ''owner_followers'' = Some (JInt 0)"
    using fo0 by (simp add: lr)
  show ?thesis
    using ex keys subs scal foll by blast
qed






lemma andthen_eq_Inr: "andthen m f = Inr r \<longleftrightarrow> (\<exists>x. m = Inr x \<and> f x = Inr r)"
  by (cases m) simp_all









text \<open>
  C10. For a node that is None or the empty mapping, extract\_repo\_data returns the
  empty dictionary: no key at all, not a Record of defaults.
\<close>

theorem extract_repo_data_empty_node:
  "extract_repo_data JNull = Inr [] \<and> extract_repo_data (JObj []) = Inr []"
  by (simp add: extract_repo_data_def)

section \<open>Backoff wrapper (utils.exponential\_backoff)\<close>

text \<open>
  The decorator's parameters. \<open>retryable\<close> is \<^verbatim>\<open>isinstance(e, exceptions)\<close>. Delays are
  seconds; the floats of the source are modelled as exact rationals, which is what the
  float arithmetic yields for the transport's configuration (small powers of two).
\<close>

record backoff_config =
  max_retries :: int
  base_delay :: rat
  max_delay :: rat
  exponential_base :: rat
  retryable :: "exn \<Rightarrow> bool"

text \<open>Line 44: \<^verbatim>\<open>min(base_delay * (exponential_base ** attempt), max_delay)\<close>.\<close>

definition delay :: "backoff_config \<Rightarrow> int \<Rightarrow> rat" where
  "delay c attempt = min (base_delay c * exponential_base c ^ nat attempt) (max_delay c)"

text \<open>
  The wrapped operation acts on a world \<open>'w\<close>: a call returns or raises, and leaves a
  new world. The loop of lines 37-47 carries the attempt number, \<^verbatim>\<open>last_exception\<close>
  and the delays slept so far (\<^verbatim>\<open>time.sleep\<close>, in order). An exception that is not
  retryable is not caught and leaves the loop at once; after the loop,
  \<^verbatim>\<open>raise last_exception\<close> raises TypeError when it is still None.
\<close>

function wrapper_loop ::
  "backoff_config \<Rightarrow> ('w \<Rightarrow> (exn + 'a) \<times> 'w) \<Rightarrow> int \<Rightarrow> exn option \<Rightarrow> 'w \<Rightarrow> rat list \<Rightarrow>
     (exn + 'a) \<times> 'w \<times> rat list" where
  "wrapper_loop c func attempt last_exception w slept =
     (if attempt < max_retries c + 1 then
        (case func w of
           (Inr v, w') \<Rightarrow> (Inr v, w', slept)
         | (Inl e, w') \<Rightarrow>
             if retryable c e then
               if attempt = max_retries c then (Inl e, w', slept)
               else wrapper_loop c func (attempt + 1) (Some e) w' (slept @ [delay c attempt])
             else (Inl e, w', slept))
      else (case last_exception of
              None \<Rightarrow> (Inl TypeError, w, slept)
            | Some e \<Rightarrow> (Inl e, w, slept)))"
  by pat_completeness auto
termination
  by (relation "measure (\<lambda>(c, func, attempt, last_exception, w, slept).
                   nat (max_retries c + 1 - attempt))") auto

definition exponential_backoff ::
  "backoff_config \<Rightarrow> ('w \<Rightarrow> (exn + 'a) \<times> 'w) \<Rightarrow> 'w \<Rightarrow> (exn + 'a) \<times> 'w \<times> rat list" where
  "exponential_backoff c func w = wrapper_loop c func 0 None w []"

section \<open>Query transport (client.GitHubGraphQLClient.execute)\<close>

text \<open>
  The decorator arguments of line 42-46: \<^verbatim>\<open>max_retries=3, base_delay=2.0,
  exceptions=(requests.exceptions.RequestException,)\<close>, the rest by default
  (\<^verbatim>\<open>max_delay=60.0, exponential_base=2.0\<close>).
\<close>

fun is_request_exception :: "exn \<Rightarrow> bool" where
  "is_request_exception (RequestException m) = True"
| "is_request_exception _ = False"

definition transport_config :: backoff_config where
  "transport_config =
     \<lparr>max_retries = 3, base_delay = 2, max_delay = 60, exponential_base = 2,
      retryable = is_request_exception\<rparr>"

text \<open>The two operations of the example for the wrapper.\<close>

definition always_timeout :: "nat \<Rightarrow> (exn + json) \<times> nat" where
  "always_timeout n = (Inl (RequestException (replicate (Suc n) CHR ''!'')), Suc n)"

definition bad_query :: "nat \<Rightarrow> (exn + json) \<times> nat" where
  "bad_query n = (Inl (ValueError ''bad''), Suc n)"

text \<open>
  \<^verbatim>\<open>k in v\<close> for a string \<open>k\<close>: a key of a dict, an element of a list, a substring
  of a string; None, a number or a boolean raises TypeError.
\<close>

fun py_contains :: "string \<Rightarrow> json \<Rightarrow> exn + bool" where
  "py_contains k (JObj kvs) = Inr (k \<in> set (map fst kvs))"
| "py_contains k (JList xs) = Inr (JStr k \<in> set xs)"
| "py_contains k (JStr s) = Inr (sublist k s)"
| "py_contains k _ = Inl TypeError"

text \<open>\<^verbatim>\<open>v[k]\<close> for a string \<open>k\<close>: only a dict can be indexed by a string.\<close>

fun py_getitem :: "json \<Rightarrow> string \<Rightarrow> exn + json" where
  "py_getitem (JObj kvs) k = (case map_of kvs k of None \<Rightarrow> Inl KeyError | Some v \<Rightarrow> Inr v)"
| "py_getitem _ k = Inl TypeError"

text \<open>\<^verbatim>\<open>sep.join(xs)\<close>: every element must be a string.\<close>

fun py_join :: "string \<Rightarrow> json list \<Rightarrow> exn + string" where
  "py_join sep [] = Inr []"
| "py_join sep [JStr s] = Inr s"
| "py_join sep (JStr s # rest) = andthen (py_join sep rest) (\<lambda>r. Inr (s @ sep @ r))"
| "py_join sep _ = Inl TypeError"

text \<open>
  The client: \<^verbatim>\<open>_rate_limit\<close>, the payloads posted so far, and the endpoint as a script,
  one entry per \<^verbatim>\<open>session.post\<close>: the post raises a RequestException (no connection,
  timeout) or yields a response with a status code and a decoded JSON body. A post
  on an exhausted script raises StopIteration, as a scripted endpoint does.
\<close>

datatype http_reply = ConnectionFailed string | Response nat json

record client =
  rate_limit :: "json option"
  sent :: "json list"
  replies :: "http_reply list"

text \<open>Lines 66-68: the payload.\<close>

definition payload :: "string \<Rightarrow> json \<Rightarrow> json" where
  "payload query variables =
     JObj ((''query'', JStr query) #
           (if truthy variables then [(''variables'', variables)] else []))"

text \<open>Line 76: \<^verbatim>\<open>'data' in result and 'rateLimit' in result['data']\<close>.\<close>

definition carries_rate_limit :: "json \<Rightarrow> exn + bool" where
  "carries_rate_limit result =
     andthen (py_contains ''data'' result) (\<lambda>has_data.
       if has_data then andthen (py_getitem result ''data'') (py_contains ''rateLimit'')
       else Inr False)"

text \<open>Line 81: \<^verbatim>\<open>[e.get('message', str(e)) for e in result['errors']]\<close>.\<close>

fun error_messages :: "(json \<Rightarrow> string) \<Rightarrow> json list \<Rightarrow> exn + json list" where
  "error_messages str_of [] = Inr []"
| "error_messages str_of (e # es) =
     andthen (py_get e ''message'' (JStr (str_of e))) (\<lambda>m.
     andthen (error_messages str_of es) (\<lambda>ms. Inr (m # ms)))"

text \<open>Lines 80-84: raise on an error list, else return the payload substructure.\<close>

definition check_errors :: "(json \<Rightarrow> string) \<Rightarrow> json \<Rightarrow> exn + json" where
  "check_errors str_of result =
     andthen (py_contains ''errors'' result) (\<lambda>has_errors.
       if has_errors
       then andthen (py_getitem result ''errors'') (\<lambda>errors.
            andthen (py_iter errors) (\<lambda>es.
            andthen (error_messages str_of es) (\<lambda>ms.
            andthen (py_join ''; '' ms) (\<lambda>joined.
              Inl (ValueError (''GraphQL errors: '' @ joined))))))
       else py_get result ''data'' (JObj []))"

text \<open>
  The body of \<^verbatim>\<open>execute\<close> (lines 66-84), one post. \<^verbatim>\<open>raise_for_status\<close> raises an
  HTTPError, a RequestException, for a status from 400 to 599. \<open>str_of\<close> is Python's
  \<^verbatim>\<open>str\<close> on a decoded value, used for an error object without a message.
\<close>

definition execute_body ::
  "(json \<Rightarrow> string) \<Rightarrow> string \<Rightarrow> json \<Rightarrow> client \<Rightarrow> (exn + json) \<times> client" where
  "execute_body str_of query variables c =
     (let c0 = c\<lparr>sent := sent c @ [payload query variables]\<rparr> in
      case replies c of
        [] \<Rightarrow> (Inl StopIteration, c0)
      | ConnectionFailed m # rest \<Rightarrow> (Inl (RequestException m), c0\<lparr>replies := rest\<rparr>)
      | Response status result # rest \<Rightarrow>
          let c1 = c0\<lparr>replies := rest\<rparr> in
          if 400 \<le> status \<and> status < 600 then (Inl (RequestException ''HTTPError''), c1)
          else
            (case carries_rate_limit result of
               Inl e \<Rightarrow> (Inl e, c1)
             | Inr False \<Rightarrow> (check_errors str_of result, c1)
             | Inr True \<Rightarrow>
                 (case andthen (py_getitem result ''data'') (\<lambda>d. py_getitem d ''rateLimit'') of
                    Inl e \<Rightarrow> (Inl e, c1)
                  | Inr rl \<Rightarrow> (check_errors str_of result, c1\<lparr>rate_limit := Some rl\<rparr>))))"

text \<open>\<^verbatim>\<open>execute\<close> is the body under the decorator.\<close>

definition execute ::
  "(json \<Rightarrow> string) \<Rightarrow> string \<Rightarrow> json \<Rightarrow> client \<Rightarrow> (exn + json) \<times> client \<times> rat list" where
  "execute str_of query variables =
     exponential_backoff transport_config (execute_body str_of query variables)"

definition null_data_errors :: json where
  "null_data_errors =
     JObj [(''data'', JNull), (''errors'', JList [JObj [(''message'', JStr ''timeout'')]])]"

declare wrapper_loop.simps [simp del]

lemma wrapper_loop_returns:
  assumes "attempt < max_retries c + 1" "func w = (Inr v, w')"
  shows "wrapper_loop c func attempt le w slept = (Inr v, w', slept)"
  using assms by (subst wrapper_loop.simps) simp

lemma wrapper_loop_not_retryable:
  assumes "attempt < max_retries c + 1" "func w = (Inl e, w')" "\<not> retryable c e"
  shows "wrapper_loop c func attempt le w slept = (Inl e, w', slept)"
  using assms by (subst wrapper_loop.simps) simp

lemma wrapper_loop_retry:
  assumes "attempt < max_retries c" "func w = (Inl e, w')" "retryable c e"
  shows "wrapper_loop c func attempt le w slept =
           wrapper_loop c func (attempt + 1) (Some e) w' (slept @ [delay c attempt])"
  using assms by (subst wrapper_loop.simps) simp

lemma wrapper_loop_exhausted:
  assumes "attempt = max_retries c" "func w = (Inl e, w')" "retryable c e"
  shows "wrapper_loop c func attempt le w slept = (Inl e, w', slept)"
  using assms by (subst wrapper_loop.simps) simp

lemma transport_delays: "map (delay transport_config) [0, 1, 2] = [2, 4, 8]"
  by (simp add: delay_def transport_config_def)

text \<open>
  C7. Under the transport's configuration (3 retries, base delay 2 s, multiplier 2,
  ceiling 60 s) an operation that fails four times with a retryable failure is retried
  after delays of exactly 2, 4 and 8 seconds, each
  \<^verbatim>\<open>min(base_delay * exponential_base ** attempt, max_delay)\<close>, and the failure of the
  last call is what the wrapper raises. A failure that is not retryable leaves the
  wrapper at once, at whatever attempt it occurs: no further call, no delay.
\<close>

theorem backoff_schedule:
  "(func w0 = (Inl e0, w1) \<and> func w1 = (Inl e1, w2) \<and> func w2 = (Inl e2, w3) \<and>
    func w3 = (Inl e3, w4) \<and> is_request_exception e0 \<and> is_request_exception e1 \<and>
    is_request_exception e2 \<and> is_request_exception e3 \<longrightarrow>
      exponential_backoff transport_config func w0 = (Inl e3, w4, [2, 4, 8]) \<and>
      map (delay transport_config) [0, 1, 2] = [2, 4, 8]) \<and>
   (func w = (Inl e, w') \<and> \<not> is_request_exception e \<longrightarrow>
      exponential_backoff transport_config func w = (Inl e, w', []) \<and>
      (\<forall>attempt le slept. attempt < 4 \<longrightarrow>
         wrapper_loop transport_config func attempt le w slept = (Inl e, w', slept)))"
proof (intro conjI impI allI)
  assume a: "func w0 = (Inl e0, w1) \<and> func w1 = (Inl e1, w2) \<and> func w2 = (Inl e2, w3) \<and>
    func w3 = (Inl e3, w4) \<and> is_request_exception e0 \<and> is_request_exception e1 \<and>
    is_request_exception e2 \<and> is_request_exception e3"
  have r: "retryable transport_config = is_request_exception" "max_retries transport_config = 3"
    by (simp_all add: transport_config_def)
  have "exponential_backoff transport_config func w0 =
          wrapper_loop transport_config func 1 (Some e0) w1 [2]"
    using a transport_delays
    by (simp add: exponential_backoff_def wrapper_loop_retry r)
  also have "\<dots> = wrapper_loop transport_config func 2 (Some e1) w2 [2, 4]"
    using a transport_delays wrapper_loop_retry[of 1 transport_config func w1 e1 w2]
    by (simp add: r)
  also have "\<dots> = wrapper_loop transport_config func 3 (Some e2) w3 [2, 4, 8]"
    using a transport_delays wrapper_loop_retry[of 2 transport_config func w2 e2 w3]
    by (simp add: r)
  also have "\<dots> = (Inl e3, w4, [2, 4, 8])"
    using a by (simp add: wrapper_loop_exhausted r)
  finally show "exponential_backoff transport_config func w0 = (Inl e3, w4, [2, 4, 8])" .
next
  show "map (delay transport_config) [0, 1, 2] = [2, 4, 8]" by (rule transport_delays)
next
  assume "func w = (Inl e, w') \<and> \<not> is_request_exception e"
  then show "exponential_backoff transport_config func w = (Inl e, w', [])"
    by (simp add: exponential_backoff_def wrapper_loop_not_retryable transport_config_def)
next
  fix attempt :: int and le slept
  assume "func w = (Inl e, w') \<and> \<not> is_request_exception e" "attempt < 4"
  then show "wrapper_loop transport_config func attempt le w slept = (Inl e, w', slept)"
    by (simp add: wrapper_loop_not_retryable transport_config_def)
qed

text \<open>
  C7 on two operations over a call counter: one that always times out, with the
  number of the call in its message, and one that fails with a ValueError.
\<close>

theorem backoff_schedule_witness:
  "exponential_backoff transport_config always_timeout 0 =
     (Inl (RequestException ''!!!!''), 4, [2, 4, 8]) \<and>
   exponential_backoff transport_config bad_query 0 = (Inl (ValueError ''bad''), 1, [])"
proof
  have "always_timeout 0 = (Inl (RequestException ''!''), 1)"
    "always_timeout 1 = (Inl (RequestException ''!!''), 2)"
    "always_timeout 2 = (Inl (RequestException ''!!!''), 3)"
    "always_timeout 3 = (Inl (RequestException ''!!!!''), 4)"
    by (simp_all add: always_timeout_def numeral_eq_Suc)
  with backoff_schedule[THEN conjunct1, of always_timeout 0 "RequestException ''!''" 1
          "RequestException ''!!''" 2 "RequestException ''!!!''" 3
          "RequestException ''!!!!''" 4]
  show "exponential_backoff transport_config always_timeout 0 =
          (Inl (RequestException ''!!!!''), 4, [2, 4, 8])"
    by simp
next
  have "bad_query 0 = (Inl (ValueError ''bad''), 1)"
    by (simp add: bad_query_def)
  with backoff_schedule[THEN conjunct2, of bad_query 0 "ValueError ''bad''" 1]
  show "exponential_backoff transport_config bad_query 0 = (Inl (ValueError ''bad''), 1, [])"
    by simp
qed

text \<open>
  C8 at the envelope \<^verbatim>\<open>{"data": null, "errors": [{"message": "timeout"}]}\<close>, which
  GraphQL sends when no data could be produced: line 76 evaluates
  \<^verbatim>\<open>'rateLimit' in None\<close>, so \<^verbatim>\<open>execute\<close> raises TypeError before it reads the
  error list. The failure is not retried, but it does not carry the error messages.
\<close>

theorem execute_null_data_errors:
  "execute str_of q vars \<lparr>rate_limit = None, sent = [], replies = [Response 200 null_data_errors]\<rparr> =
     (Inl TypeError, \<lparr>rate_limit = None, sent = [payload q vars], replies = []\<rparr>, [])"
  by (simp add: execute_def exponential_backoff_def wrapper_loop_not_retryable
        transport_config_def execute_body_def carries_rate_limit_def null_data_errors_def)

text \<open>
  With no \<^verbatim>\<open>data\<close> key in the envelope the error list is reported in a ValueError:
  one post, no delay, a ValueError with the joined messages.
\<close>

lemma execute_application_error:
  assumes "map_of kvs ''errors'' = Some (JList es)"
    and "map_of kvs ''data'' = None"
    and "error_messages str_of es = Inr ms"
    and "py_join ''; '' ms = Inr joined"
    and "status < 400"
  shows "execute str_of q vars (c\<lparr>replies := Response status (JObj kvs) # rest\<rparr>) =
           (Inl (ValueError (''GraphQL errors: '' @ joined)),
            c\<lparr>sent := sent c @ [payload q vars], replies := rest\<rparr>, [])"
proof -
  have e: "''errors'' \<in> fst ` set kvs" "''data'' \<notin> fst ` set kvs"
    using assms(1,2) by (auto simp: map_of_eq_None_iff dest: map_of_SomeD intro: rev_image_eqI)
  have body: "execute_body str_of q vars (c\<lparr>replies := Response status (JObj kvs) # rest\<rparr>) =
          (Inl (ValueError (''GraphQL errors: '' @ joined)),
           c\<lparr>sent := sent c @ [payload q vars], replies := rest\<rparr>)"
    using assms e
    by (simp add: execute_body_def carries_rate_limit_def check_errors_def)
  show ?thesis
    unfolding execute_def exponential_backoff_def
    by (rule wrapper_loop_not_retryable) (simp_all add: body transport_config_def)
qed

section \<open>The fetcher's view of the transport\<close>

text \<open>
  The drivers of \<^verbatim>\<open>GitHubFetcher\<close> call \<^verbatim>\<open>client.execute\<close> for their search
  requests. They are modelled against a script of what the successive calls return
  (the \<^verbatim>\<open>data\<close> of the response) or raise; a call on an exhausted script raises
  StopIteration. The rate-limit tracker (\<^verbatim>\<open>wait_for_rate_limit\<close>,
  \<^verbatim>\<open>get_rate_limit_info\<close>) keeps its own snapshot and probe requests; its calls are
  taken to return, and the progress bar and the printed lines are left out.
\<close>

type_synonym transport = "(exn + json) list"

fun client_execute :: "transport \<Rightarrow> (exn + json) \<times> transport" where
  "client_execute [] = (Inl StopIteration, [])"
| "client_execute (r # script) = (r, script)"

lemma client_execute_Inr:
  "client_execute script = (Inr data, script') \<Longrightarrow> length script' < length script"
  by (cases script) auto

text \<open>A Record, as \<open>extract_repo_data\<close> returns it.\<close>

type_synonym repo = "(string \<times> json) list"

section \<open>Pagination driver (fetcher.search\_repositories)\<close>

text \<open>
  \<^verbatim>\<open>_save_progress\<close> (lines 602-618): nothing is written for an empty buffer;
  otherwise the persistence sink receives the whole buffer. \<open>saved\<close> lists the buffers
  the sink received, in order.
\<close>

definition save_progress :: "repo list \<Rightarrow> repo list list \<Rightarrow> repo list list" where
  "save_progress buffer saved = (if buffer = [] then saved else saved @ [buffer])"

text \<open>
  \<^verbatim>\<open>s.lower()\<close> on ASCII letters (Python lowers every cased code point), and the
  attribute lookup that fails on anything but a string.
\<close>

definition lower_char :: "char \<Rightarrow> char" where
  "lower_char c =
     (let n = of_char c :: nat in if 65 \<le> n \<and> n \<le> 90 then char_of (n + 32) else c)"

definition lower :: "string \<Rightarrow> string" where
  "lower s = map lower_char s"

fun py_lower :: "json \<Rightarrow> exn + string" where
  "py_lower (JStr s) = Inr (lower s)"
| "py_lower _ = Inl AttributeError"

text \<open>
  Lines 112-115: with a location filter, a record is skipped unless the lowered filter
  is a substring of \<^verbatim>\<open>(repo_data.get('owner_location') or '').lower()\<close>.
\<close>

definition location_skips :: "string option \<Rightarrow> repo \<Rightarrow> exn + bool" where
  "location_skips location_filter repo_data =
     (case location_filter of
        None \<Rightarrow> Inr False
      | Some lf \<Rightarrow>
          if lf = [] then Inr False
          else
            andthen (py_lower (case map_of repo_data ''owner_location'' of
                                 None \<Rightarrow> JStr ''''
                               | Some v \<Rightarrow> if truthy v then v else JStr ''''))
              (\<lambda>owner_location. Inr (\<not> sublist (lower lf) owner_location)))"

text \<open>The locals of \<^verbatim>\<open>search_repositories\<close> and the instance buffer \<^verbatim>\<open>_repos\<close>.\<close>

record search_state =
  repos :: "repo list"
  cursor :: json
  total_matched :: int
  total_fetched :: int
  saved :: "repo list list"

text \<open>
  Lines 106-122, the loop over the nodes of one page. It leaves the page as soon as
  \<^verbatim>\<open>total_matched >= max_repos\<close>.
\<close>

fun process_nodes :: "string option \<Rightarrow> int \<Rightarrow> json list \<Rightarrow> search_state \<Rightarrow> exn + search_state" where
  "process_nodes location_filter max_repos [] st = Inr st"
| "process_nodes location_filter max_repos (node # nodes) st =
     (if truthy node then
        andthen (extract_repo_data node) (\<lambda>repo_data.
          let st1 = st\<lparr>total_fetched := total_fetched st + 1\<rparr> in
          andthen (location_skips location_filter repo_data) (\<lambda>skip.
            if skip then process_nodes location_filter max_repos nodes st1
            else
              let st2 = st1\<lparr>repos := repos st1 @ [repo_data],
                            total_matched := total_matched st1 + 1\<rparr>
              in if total_matched st2 \<ge> max_repos then Inr st2
                 else process_nodes location_filter max_repos nodes st2))
      else process_nodes location_filter max_repos nodes st)"

text \<open>Lines 125-126, with \<^verbatim>\<open>SAVE_INTERVAL = 100\<close>.\<close>

definition checkpoint :: "bool \<Rightarrow> search_state \<Rightarrow> search_state" where
  "checkpoint output_path st =
     (if output_path \<and> total_matched st mod 100 = 0
      then st\<lparr>saved := save_progress (repos st) (saved st)\<rparr> else st)"

text \<open>
  Lines 80-140, the \<^verbatim>\<open>while\<close> loop. It returns the state and the part of the script
  it did not consume. An exception of \<^verbatim>\<open>execute\<close> is caught and ends the loop; what
  the handling of the page raises is not caught.
\<close>

function search_loop ::
  "string option \<Rightarrow> int \<Rightarrow> bool \<Rightarrow> search_state \<Rightarrow> transport \<Rightarrow> exn + (search_state \<times> transport)" where
  "search_loop location_filter max_repos output_path st script =
     (if total_matched st < max_repos then
        (case client_execute script of
           (Inl e, script') \<Rightarrow> Inr (st, script')
         | (Inr data, script') \<Rightarrow>
             andthen (py_get data ''search'' (JObj [])) (\<lambda>search_data.
             andthen (py_get search_data ''nodes'' (JList [])) (\<lambda>nodes.
             andthen (py_get search_data ''pageInfo'' (JObj [])) (\<lambda>page_info.
               if \<not> truthy nodes then Inr (st, script')
               else
                 andthen (py_iter nodes) (\<lambda>ns.
                 andthen (process_nodes location_filter max_repos ns st) (\<lambda>st1.
                   let st2 = checkpoint output_path st1 in
                   andthen (py_get page_info ''hasNextPage'' (JBool False)) (\<lambda>has_next.
                     if \<not> truthy has_next then Inr (st2, script')
                     else
                       andthen (py_get page_info ''endCursor'' JNull) (\<lambda>end_cursor.
                         search_loop location_filter max_repos output_path
                           (st2\<lparr>cursor := end_cursor\<rparr>) script'))))))))
      else Inr (st, script))"
  by pat_completeness auto
termination
  by (relation "measure (\<lambda>(location_filter, max_repos, output_path, st, script). length script)")
     (auto dest: client_execute_Inr[OF sym])



text \<open>
  For the proofs: what the body of the loop does with one page, as a new state and
  whether the loop goes on; and whether a page reports a next page.
\<close>

definition handle_page ::
  "string option \<Rightarrow> int \<Rightarrow> bool \<Rightarrow> search_state \<Rightarrow> json \<Rightarrow> exn + (search_state \<times> bool)" where
  "handle_page location_filter max_repos output_path st data =
     andthen (py_get data ''search'' (JObj [])) (\<lambda>search_data.
     andthen (py_get search_data ''nodes'' (JList [])) (\<lambda>nodes.
     andthen (py_get search_data ''pageInfo'' (JObj [])) (\<lambda>page_info.
       if \<not> truthy nodes then Inr (st, False)
       else
         andthen (py_iter nodes) (\<lambda>ns.
         andthen (process_nodes location_filter max_repos ns st) (\<lambda>st1.
           let st2 = checkpoint output_path st1 in
           andthen (py_get page_info ''hasNextPage'' (JBool False)) (\<lambda>has_next.
             if \<not> truthy has_next then Inr (st2, False)
             else
               andthen (py_get page_info ''endCursor'' JNull) (\<lambda>end_cursor.
                 Inr (st2\<lparr>cursor := end_cursor\<rparr>, True))))))))"


declare search_loop.simps [simp del]

lemma andthen_assoc: "andthen (andthen m f) g = andthen m (\<lambda>x. andthen (f x) g)"
  by (cases m) simp_all

lemma andthen_if: "andthen (if b then m else n) g = (if b then andthen m g else andthen n g)"
  by simp

lemma search_loop_unfold:
  "search_loop lf mx out st script =
     (if total_matched st < mx then
        (case script of
           [] \<Rightarrow> Inr (st, [])
         | Inl e # script' \<Rightarrow> Inr (st, script')
         | Inr data # script' \<Rightarrow>
             andthen (handle_page lf mx out st data) (\<lambda>(st', continue).
               if continue then search_loop lf mx out st' script' else Inr (st', script')))
      else Inr (st, script))"
  by (subst search_loop.simps)
     (simp add: handle_page_def andthen_assoc andthen_if Let_def
        split: list.splits sum.splits cong: if_cong)




lemma search_loop_Nil [simp]: "search_loop lf mx out st [] = Inr (st, [])"
  by (subst search_loop_unfold) simp




lemma checkpoint_fields [simp]:
  "repos (checkpoint out st) = repos st"
  "total_matched (checkpoint out st) = total_matched st"
  by (simp_all add: checkpoint_def)










text \<open>
  A response page built from \<open>k\<close> copies of a minimal repository node, and the Record
  extracted from that node.
\<close>

definition tiny_node :: json where
  "tiny_node = JObj [(''name'', JStr ''r'')]"

definition tiny_record :: repo where
  "tiny_record = (case extract_repo_data tiny_node of Inr r \<Rightarrow> r | Inl e \<Rightarrow> [])"


lemma wf_tiny_node: "wf_node tiny_node"
  by (simp add: tiny_node_def wf_node_def obj_or_missing_def missing_def get_or_def
        lookup_def language_nodes_ok_def topic_nodes_ok_def)

lemma extract_tiny_node: "extract_repo_data tiny_node = Inr tiny_record"
  using extract_repo_data_wf[OF wf_tiny_node] by (auto simp: tiny_record_def)

lemma tiny_record_not_empty: "tiny_record \<noteq> []"
  using extract_repo_data_wf[OF wf_tiny_node] extract_tiny_node
  by (auto simp: record_keys_def)


































section \<open>User discovery driver (fetcher.\_fetch\_users\_with\_date\_split)\<close>

lemma andthen_cong [fundef_cong]:
  "m = m' \<Longrightarrow> (\<And>x. m' = Inr x \<Longrightarrow> f x = f' x) \<Longrightarrow> andthen m f = andthen m' f'"
  by (cases m') simp_all

text \<open>
  Lines 369-373 of \<^verbatim>\<open>_paginated_user_search\<close>: the logins of one page are appended
  until \<^verbatim>\<open>max_count\<close> is reached.
\<close>

fun collect_logins :: "int \<Rightarrow> json list \<Rightarrow> json list \<Rightarrow> exn + json list" where
  "collect_logins max_count [] users = Inr users"
| "collect_logins max_count (node # nodes) users =
     andthen (if truthy node
              then andthen (py_get node ''login'' JNull) (\<lambda>l. Inr (truthy l))
              else Inr False) (\<lambda>has_login.
       if has_login
       then andthen (py_getitem node ''login'') (\<lambda>login.
              let users' = users @ [login]
              in if int (length users') \<ge> max_count then Inr users'
                 else collect_logins max_count nodes users')
       else collect_logins max_count nodes users)"

text \<open>Lines 350-377, the \<^verbatim>\<open>while\<close> loop of \<^verbatim>\<open>_paginated_user_search\<close>.\<close>

function paginated_loop ::
  "int \<Rightarrow> json list \<Rightarrow> json \<Rightarrow> transport \<Rightarrow> exn + (json list \<times> transport)" where
  "paginated_loop max_count users cur script =
     (if int (length users) < max_count then
        (case client_execute script of
           (Inl ex, script') \<Rightarrow> Inr (users, script')
         | (Inr data, script') \<Rightarrow>
             andthen (py_get data ''search'' (JObj [])) (\<lambda>search_data.
             andthen (py_get search_data ''nodes'' (JList [])) (\<lambda>nodes.
             andthen (py_get search_data ''pageInfo'' (JObj [])) (\<lambda>page_info.
             andthen (py_iter nodes) (\<lambda>ns.
             andthen (collect_logins max_count ns users) (\<lambda>users'.
             andthen (py_get page_info ''hasNextPage'' (JBool False)) (\<lambda>has_next.
               if \<not> truthy has_next then Inr (users', script')
               else
                 andthen (py_get page_info ''endCursor'' JNull) (\<lambda>end_cursor.
                   paginated_loop max_count users' end_cursor script'))))))))
      else Inr (users, script))"
  by pat_completeness auto
termination
  by (relation "measure (\<lambda>(max_count, users, cur, script). length script)")
     (auto dest: client_execute_Inr[OF sym])

text \<open>
  \<^verbatim>\<open>_paginated_user_search(query, max_count)\<close>. The query string only goes into the
  request, which the scripted transport does not read.
\<close>

definition paginated_user_search :: "int \<Rightarrow> transport \<Rightarrow> exn + (json list \<times> transport)" where
  "paginated_user_search max_count script = paginated_loop max_count [] JNull script"

text \<open>
  Lines 308-313, the \<^verbatim>\<open>try\<close> block of the count request: None when the request or
  the reading of \<^verbatim>\<open>userCount\<close> raised (the range is then skipped).
\<close>

definition count_users :: "transport \<Rightarrow> json option \<times> transport" where
  "count_users script =
     (case client_execute script of
        (Inl ex, script') \<Rightarrow> (None, script')
      | (Inr data, script') \<Rightarrow>
          (case andthen (py_get data ''search'' (JObj []))
                  (\<lambda>search_data. py_get search_data ''userCount'' (JInt 0)) of
             Inl ex \<Rightarrow> (None, script')
           | Inr count \<Rightarrow> (Some count, script')))"

text \<open>
  A decoded count as a Python number: \<^verbatim>\<open>count == 0\<close> never raises;
  \<^verbatim>\<open>count <= 1000\<close> and \<^verbatim>\<open>min(count, remaining)\<close> need a number (a bool counts as
  0 or 1) and raise TypeError otherwise.
\<close>

fun is_zero :: "json \<Rightarrow> bool" where
  "is_zero (JInt n) = (n = 0)"
| "is_zero (JBool b) = (\<not> b)"
| "is_zero _ = False"

fun py_number :: "json \<Rightarrow> exn + int" where
  "py_number (JInt n) = Inr n"
| "py_number (JBool b) = Inr (if b then 1 else 0)"
| "py_number _ = Inl TypeError"

text \<open>
  \<^verbatim>\<open>max_users\<close> is an optional int: the loop test
  \<^verbatim>\<open>max_users is None or len(users) < max_users\<close>, and its truth value
  (\<^verbatim>\<open>if max_users\<close>: neither None nor 0).
\<close>

fun below_max :: "int option \<Rightarrow> json list \<Rightarrow> bool" where
  "below_max None users = True"
| "below_max (Some m) users = (int (length users) < m)"

fun truthy_max :: "int option \<Rightarrow> bool" where
  "truthy_max None = False"
| "truthy_max (Some m) = (m \<noteq> 0)"

text \<open>
  Lines 322-327: new logins are appended unless already present, up to
  \<^verbatim>\<open>max_users\<close>. Lines 334-337, the branch of a range of at most one day: the same
  without the test against \<^verbatim>\<open>max_users\<close>.
\<close>

fun add_new :: "int option \<Rightarrow> json list \<Rightarrow> json list \<Rightarrow> json list" where
  "add_new max_users [] users = users"
| "add_new max_users (u # new_users) users =
     (if u \<notin> set users
      then let users' = users @ [u]
           in if truthy_max max_users \<and> int (length users') \<ge> the max_users then users'
              else add_new max_users new_users users'
      else add_new max_users new_users users)"

fun add_all :: "json list \<Rightarrow> json list \<Rightarrow> json list" where
  "add_all [] users = users"
| "add_all (u # new_users) users =
     (if u \<notin> set users then add_all new_users (users @ [u]) else add_all new_users users)"

declare paginated_loop.simps [simp del]

lemma paginated_loop_Nil: "paginated_loop max_count users cur [] = Inr (users, [])"
  by (subst paginated_loop.simps) simp

lemma paginated_loop_Cons:
  "paginated_loop max_count users cur (x # xs) =
     (if int (length users) < max_count then
        (case x of
           Inl ex \<Rightarrow> Inr (users, xs)
         | Inr data \<Rightarrow>
             andthen (py_get data ''search'' (JObj [])) (\<lambda>search_data.
             andthen (py_get search_data ''nodes'' (JList [])) (\<lambda>nodes.
             andthen (py_get search_data ''pageInfo'' (JObj [])) (\<lambda>page_info.
             andthen (py_iter nodes) (\<lambda>ns.
             andthen (collect_logins max_count ns users) (\<lambda>users'.
             andthen (py_get page_info ''hasNextPage'' (JBool False)) (\<lambda>has_next.
               if \<not> truthy has_next then Inr (users', xs)
               else
                 andthen (py_get page_info ''endCursor'' JNull) (\<lambda>end_cursor.
                   paginated_loop max_count users' end_cursor xs))))))))
      else Inr (users, x # xs))"
  by (subst paginated_loop.simps) (simp split: sum.splits)

lemma paginated_loop_leftover:
  "paginated_loop max_count users cur script = Inr (us, script') \<Longrightarrow>
     length script' \<le> length script"
proof (induction script arbitrary: users cur)
  case Nil
  then show ?case by (simp add: paginated_loop_Nil)
next
  case (Cons x xs)
  from Cons.prems consider "script' = x # xs" | "script' = xs" |
    users' ec where "paginated_loop max_count users' ec xs = Inr (us, script')"
    by (auto simp: paginated_loop_Cons andthen_eq_Inr split: if_splits sum.splits)
  then show ?case
  proof cases
    case 3
    from Cons.IH[OF this] show ?thesis by simp
  qed simp_all
qed

lemma count_users_leftover:
  "count_users script = (r, script') \<Longrightarrow>
     length script' \<le> length script \<and> (r \<noteq> None \<longrightarrow> length script' < length script)"
  by (cases script) (auto simp: count_users_def split: sum.splits)

text \<open>
  Dates are day ordinals (\<^verbatim>\<open>date.toordinal()\<close>), so \<^verbatim>\<open>(e - s).days\<close> is the
  difference and \<^verbatim>\<open>s + timedelta(days=n)\<close> the sum. Lines 300-341, the \<^verbatim>\<open>while\<close> loop
  over the queue of ranges, as a function of the queue, the users found and the
  script.
\<close>

function date_split_loop ::
  "int option \<Rightarrow> (int \<times> int) list \<Rightarrow> json list \<Rightarrow> transport \<Rightarrow> exn + (json list \<times> transport)" where
  "date_split_loop max_users ranges users script =
     (case ranges of
        [] \<Rightarrow> Inr (users, script)
      | (s, e) # ranges' \<Rightarrow>
          if \<not> below_max max_users users then Inr (users, script)
          else
            (case count_users script of
               (None, script') \<Rightarrow> date_split_loop max_users ranges' users script'
             | (Some count, script') \<Rightarrow>
                 if is_zero count then date_split_loop max_users ranges' users script'
                 else
                   andthen (py_number count) (\<lambda>c.
                     if c \<le> 1000 then
                       let remaining =
                             (if truthy_max max_users then the max_users - int (length users) else c)
                       in andthen (paginated_user_search (min c remaining) script')
                            (\<lambda>(new_users, script'').
                               date_split_loop max_users ranges'
                                 (add_new max_users new_users users) script'')
                     else
                       let days = e - s in
                       if days \<le> 1 then
                         andthen (paginated_user_search 1000 script')
                           (\<lambda>(new_users, script'').
                              date_split_loop max_users ranges' (add_all new_users users) script'')
                       else
                         let mid = s + days div 2
                         in date_split_loop max_users ((s, mid) # (mid + 1, e) # ranges')
                              users script')))"
  by pat_completeness auto
termination
  apply (relation "measures [\<lambda>(max_users, ranges, users, script). length script,
                             \<lambda>(max_users, ranges, users, script). length ranges]")
  apply (auto dest!: count_users_leftover[OF sym] paginated_loop_leftover
              simp: paginated_user_search_def)
  done


text \<open>
  \<^verbatim>\<open>_fetch_users_with_date_split\<close>: the queue starts with the range from 2008-01-01
  (ordinal 733042) to \<^verbatim>\<open>date.today()\<close>.
\<close>

definition fetch_users_with_date_split ::
  "int \<Rightarrow> int option \<Rightarrow> transport \<Rightarrow> exn + (json list \<times> transport)" where
  "fetch_users_with_date_split today max_users script =
     date_split_loop max_users [(733042, today)] [] script"

text \<open>
  \<^verbatim>\<open>fetch_users_by_location\<close> (lines 261-282): the user pass, then the organization
  pass with \<^verbatim>\<open>max_users - len(all_users) if max_users else None\<close>.
\<close>

definition fetch_users_by_location ::
  "int \<Rightarrow> string \<Rightarrow> bool \<Rightarrow> int option \<Rightarrow> transport \<Rightarrow> exn + (json list \<times> transport)" where
  "fetch_users_by_location today location include_orgs max_users script =
     andthen (fetch_users_with_date_split today max_users script) (\<lambda>(users, script1).
       if include_orgs then
         andthen (fetch_users_with_date_split today
                    (if truthy_max max_users then Some (the max_users - int (length users))
                     else None) script1)
           (\<lambda>(orgs, script2). Inr (users @ orgs, script2))
       else Inr (users, script1))"

text \<open>Responses of the user search: a count, and a page of logins.\<close>

definition count_reply :: "int \<Rightarrow> json" where
  "count_reply n = JObj [(''search'', JObj [(''userCount'', JInt n)])]"

definition logins_page :: "string list \<Rightarrow> bool \<Rightarrow> json" where
  "logins_page logins has_next =
     JObj [(''search'',
            JObj [(''nodes'', JList (map (\<lambda>l. JObj [(''login'', JStr l)]) logins)),
                  (''pageInfo'', JObj [(''hasNextPage'', JBool has_next)])])]"

text \<open>
  A run on 2026-11-04 (ordinal 739924) against a location with more than 1000
  accounts in every range down to two days: thirteen counts of 1001, then a page of
  two logins.
\<close>

definition crowded_location :: transport where
  "crowded_location =
     replicate 13 (Inr (count_reply 1001)) @ [Inr (logins_page [''ana'', ''bo''] False)]"

declare date_split_loop.simps [simp del]

lemma collect_logins_bound:
  assumes "collect_logins max_count ns users = Inr us"
    and "int (length users) < max_count"
  shows "int (length us) \<le> max_count"
  using assms
proof (induction ns arbitrary: users)
  case Nil
  then show ?case by simp
next
  case (Cons node ns)
  from Cons.prems(1) consider "collect_logins max_count ns users = Inr us" |
    l where "us = users @ [l]" "int (length (users @ [l])) \<ge> max_count" |
    l where "collect_logins max_count ns (users @ [l]) = Inr us"
      "\<not> int (length (users @ [l])) \<ge> max_count"
    by (auto simp: andthen_eq_Inr Let_def split: if_splits)
  then show ?case
  proof cases
    case 1
    from Cons.IH[OF this Cons.prems(2)] show ?thesis .
  next
    case 2
    then show ?thesis using Cons.prems(2) by simp
  next
    case 3
    from Cons.IH[OF 3(1)] 3(2) show ?thesis by simp
  qed
qed

lemma paginated_loop_bound:
  assumes "paginated_loop max_count users cur script = Inr (us, script')"
    and "int (length users) \<le> max max_count 0"
  shows "int (length us) \<le> max max_count 0"
  using assms
proof (induction script arbitrary: users cur)
  case Nil
  then show ?case by (simp add: paginated_loop_Nil)
next
  case (Cons x xs)
  show ?case
  proof (cases "int (length users) < max_count")
    case False
    with Cons.prems show ?thesis by (simp add: paginated_loop_Cons)
  next
    case True
    with Cons.prems(1) consider "us = users" |
      ns users' where "collect_logins max_count ns users = Inr users'" "us = users'" |
      ns users' ec where "collect_logins max_count ns users = Inr users'"
        "paginated_loop max_count users' ec xs = Inr (us, script')"
      by (auto simp: paginated_loop_Cons andthen_eq_Inr split: if_splits sum.splits)
    then show ?thesis
    proof cases
      case 1
      then show ?thesis using Cons.prems(2) by simp
    next
      case 2
      from collect_logins_bound[OF 2(1) True] 2(2) show ?thesis by simp
    next
      case 3
      from collect_logins_bound[OF 3(1) True] Cons.IH[OF 3(2)] show ?thesis by simp
    qed
  qed
qed

text \<open>
  C3. A range \<^verbatim>\<open>(s, e)\<close> at the head of the queue whose count is above 1000, while the
  loop is still below \<^verbatim>\<open>max_users\<close>: if it spans more than one day, the loop goes
  on with \<^verbatim>\<open>(s, m)\<close> and \<^verbatim>\<open>(m + 1, e)\<close> in front of the rest of the queue, where
  \<^verbatim>\<open>m = s + (e - s) div 2\<close>; the days of the two halves are exactly the days of
  \<^verbatim>\<open>(s, e)\<close>, no day is in both, and both halves are proper ranges. If it spans at
  most one day the queue is left as it is (no split), and what is fetched for the
  range is one paginated search limited to 1000 logins.
\<close>

theorem date_range_split:
  "count_users script = (Some count, script') \<and> \<not> is_zero count \<and>
   py_number count = Inr c \<and> 1000 < c \<and> below_max max_users users \<longrightarrow>
     (1 < e - s \<longrightarrow>
        (let m = s + (e - s) div 2 in
           date_split_loop max_users ((s, e) # ranges) users script =
             date_split_loop max_users ((s, m) # (m + 1, e) # ranges) users script' \<and>
           {s..m} \<union> {m + 1..e} = {s..e} \<and> {s..m} \<inter> {m + 1..e} = {} \<and>
           s \<le> m \<and> m < e)) \<and>
     (e - s \<le> 1 \<longrightarrow>
        date_split_loop max_users ((s, e) # ranges) users script =
          andthen (paginated_user_search 1000 script') (\<lambda>(new_users, script'').
            date_split_loop max_users ranges (add_all new_users users) script'') \<and>
        (\<forall>new_users script''.
           paginated_user_search 1000 script' = Inr (new_users, script'') \<longrightarrow>
             length new_users \<le> 1000))"
proof (intro impI conjI)
  assume a: "count_users script = (Some count, script') \<and> \<not> is_zero count \<and>
   py_number count = Inr c \<and> 1000 < c \<and> below_max max_users users"
  {
    assume d: "1 < e - s"
    have "date_split_loop max_users ((s, e) # ranges) users script =
            date_split_loop max_users
              ((s, s + (e - s) div 2) # (s + (e - s) div 2 + 1, e) # ranges) users script'"
      using a d by (subst date_split_loop.simps) (simp add: Let_def)
    moreover have "{s..s + (e - s) div 2} \<union> {s + (e - s) div 2 + 1..e} = {s..e}"
      using d by auto
    moreover have "{s..s + (e - s) div 2} \<inter> {s + (e - s) div 2 + 1..e} = {}"
      by auto
    moreover have "s \<le> s + (e - s) div 2" "s + (e - s) div 2 < e"
      using d by auto
    ultimately show "let m = s + (e - s) div 2 in
           date_split_loop max_users ((s, e) # ranges) users script =
             date_split_loop max_users ((s, m) # (m + 1, e) # ranges) users script' \<and>
           {s..m} \<union> {m + 1..e} = {s..e} \<and> {s..m} \<inter> {m + 1..e} = {} \<and>
           s \<le> m \<and> m < e"
      by (simp add: Let_def)
  }
  {
    assume d: "e - s \<le> 1"
    show "date_split_loop max_users ((s, e) # ranges) users script =
          andthen (paginated_user_search 1000 script') (\<lambda>(new_users, script'').
            date_split_loop max_users ranges (add_all new_users users) script'')"
      using a d by (subst date_split_loop.simps) (simp add: Let_def)
    show "\<forall>new_users script''.
           paginated_user_search 1000 script' = Inr (new_users, script'') \<longrightarrow>
             length new_users \<le> 1000"
      using paginated_loop_bound[of 1000 "[]" JNull script']
      by (auto simp: paginated_user_search_def)
  }
qed


lemma count_users_reply [simp]:
  "count_users (Inr (count_reply n) # script) = (Some (JInt n), script)"
  by (simp add: count_users_def count_reply_def)

lemma date_split_loop_Nil [simp]: "date_split_loop max_users [] users script = Inr (users, script)"
  by (subst date_split_loop.simps) simp

lemma paginated_one_page:
  "0 < max_count \<Longrightarrow>
   paginated_user_search max_count [Inr (logins_page [''ana'', ''bo''] False)] =
     Inr (if max_count = 1 then [JStr ''ana''] else [JStr ''ana'', JStr ''bo''], [])"
  by (simp add: paginated_user_search_def paginated_loop_Cons logins_page_def Let_def)

text \<open>
  C3 on the range from 2008-01-01 to 2026-11-04 (split at ordinal 736483) and on the
  range of 2008-01-01 and 2008-01-02 (not split), each with a count of 1001.
\<close>

theorem date_range_split_witness:
  "date_split_loop None [(733042, 739924)] [] [Inr (count_reply 1001)] =
     date_split_loop None [(733042, 736483), (736484, 739924)] [] [] \<and>
   {733042..736483} \<union> {736484..739924} = {733042..739924::int} \<and>
   {733042..736483} \<inter> {736484..739924::int} = {} \<and>
   date_split_loop None [(733042, 733043)] []
       [Inr (count_reply 1001), Inr (logins_page [''ana'', ''bo''] False)] =
     Inr ([JStr ''ana'', JStr ''bo''], [])"
proof -
  have "date_split_loop None [(733042, 739924)] [] [Inr (count_reply 1001)] =
     date_split_loop None [(733042, 736483), (736484, 739924)] [] [] \<and>
   {733042..736483} \<union> {736484..739924} = {733042..739924::int} \<and>
   {733042..736483} \<inter> {736484..739924::int} = {}"
    using date_range_split[of "[Inr (count_reply 1001)]" "JInt 1001" "[]" 1001 None "[]"
        739924 733042 "[]"]
    by (simp add: Let_def)
  moreover have "date_split_loop None [(733042, 733043)] []
       [Inr (count_reply 1001), Inr (logins_page [''ana'', ''bo''] False)] =
     Inr ([JStr ''ana'', JStr ''bo''], [])"
    using date_range_split[of
        "[Inr (count_reply 1001), Inr (logins_page [''ana'', ''bo''] False)]" "JInt 1001"
        "[Inr (logins_page [''ana'', ''bo''] False)]" 1001 None "[]" 733043 733042 "[]"]
    by (simp add: paginated_one_page)
  ultimately show ?thesis by simp
qed

lemma split_step:
  "1 < e - s \<Longrightarrow> below_max max_users users \<Longrightarrow>
   date_split_loop max_users ((s, e) # ranges) users (Inr (count_reply 1001) # script) =
     date_split_loop max_users ((s, s + (e - s) div 2) # (s + (e - s) div 2 + 1, e) # ranges)
       users script"
  by (subst date_split_loop.simps) (simp add: Let_def)

lemma degenerate_step:
  "e - s \<le> 1 \<Longrightarrow> below_max max_users users \<Longrightarrow>
   date_split_loop max_users ((s, e) # ranges) users (Inr (count_reply 1001) # script) =
     andthen (paginated_user_search 1000 script) (\<lambda>(new_users, script'').
       date_split_loop max_users ranges (add_all new_users users) script'')"
  by (subst date_split_loop.simps) (simp add: Let_def)

lemma not_below_max:
  "\<not> below_max max_users users \<Longrightarrow>
   date_split_loop max_users ranges users script = Inr (users, script)"
  by (subst date_split_loop.simps) (simp split: list.splits)

lemma crowded_run:
  "date_split_loop (Some 1) [(733042, 739924)] [] crowded_location =
     Inr ([JStr ''ana'', JStr ''bo''], [])"
  unfolding crowded_location_def
  by (simp add: split_step degenerate_step paginated_one_page not_below_max
      eval_nat_numeral)

text \<open>
  C6. With \<^verbatim>\<open>max_users = 1\<close> the discovery over the crowded location returns two
  logins: the branch of a range of at most one day (lines 331-337) appends every new
  login of its search, and has no test against \<^verbatim>\<open>max_users\<close>.
\<close>

theorem discovery_exceeds_max_users:
  "fetch_users_by_location 739924 ''Lima'' False (Some 1) crowded_location =
     Inr ([JStr ''ana'', JStr ''bo''], []) \<and>
   1 < int (length [JStr ''ana'', JStr ''bo''])"
  by (simp add: fetch_users_by_location_def fetch_users_with_date_split_def crowded_run)

section \<open>Two-step orchestrator (fetcher.fetch\_repos\_for\_users)\<close>

text \<open>
  Lines 483-488 of \<^verbatim>\<open>_fetch_user_repos\<close>: every non-empty node of a page is extracted
  and appended.
\<close>

fun extract_all :: "json list \<Rightarrow> repo list \<Rightarrow> exn + repo list" where
  "extract_all [] found = Inr found"
| "extract_all (node # nodes) found =
     (if \<not> truthy node then extract_all nodes found
      else andthen (extract_repo_data node) (\<lambda>repo_data.
             extract_all nodes (found @ [repo_data])))"

text \<open>
  Lines 463-492, the \<^verbatim>\<open>while True\<close> loop of \<^verbatim>\<open>_fetch_user_repos\<close>. Only the request
  is inside the \<^verbatim>\<open>try\<close>: an exception of \<^verbatim>\<open>execute\<close> ends the loop, and what the
  handling of the page raises is not caught.
\<close>

function user_repos_loop ::
  "repo list \<Rightarrow> json \<Rightarrow> transport \<Rightarrow> exn + (repo list \<times> transport)" where
  "user_repos_loop found cur script =
     (case client_execute script of
        (Inl ex, script') \<Rightarrow> Inr (found, script')
      | (Inr data, script') \<Rightarrow>
          andthen (py_get data ''search'' (JObj [])) (\<lambda>search_data.
          andthen (py_get search_data ''nodes'' (JList [])) (\<lambda>nodes.
          andthen (py_get search_data ''pageInfo'' (JObj [])) (\<lambda>page_info.
            if \<not> truthy nodes then Inr (found, script')
            else
              andthen (py_iter nodes) (\<lambda>ns.
              andthen (extract_all ns found) (\<lambda>found'.
              andthen (py_get page_info ''hasNextPage'' (JBool False)) (\<lambda>has_next.
                if \<not> truthy has_next then Inr (found', script')
                else
                  andthen (py_get page_info ''endCursor'' JNull) (\<lambda>end_cursor.
                    user_repos_loop found' end_cursor script'))))))))"
  by pat_completeness auto
termination
  by (relation "measure (\<lambda>(found, cur, script). length script)")
     (auto dest: client_execute_Inr[OF sym])

text \<open>
  \<^verbatim>\<open>_fetch_user_repos(username, ...)\<close>. The user name and the filters only go into
  the query string of the requests.
\<close>

definition fetch_user_repos :: "json \<Rightarrow> transport \<Rightarrow> exn + (repo list \<times> transport)" where
  "fetch_user_repos username script = user_repos_loop [] JNull script"

text \<open>
  Lines 409-423 of \<^verbatim>\<open>fetch_repos_for_users\<close>, the loop over the accounts, on the
  instance buffer \<^verbatim>\<open>_repos\<close> and the buffers the persistence sink received.
\<close>

fun users_loop ::
  "bool \<Rightarrow> json list \<Rightarrow> repo list \<Rightarrow> repo list list \<Rightarrow> transport \<Rightarrow>
     exn + (repo list \<times> repo list list \<times> transport)" where
  "users_loop output_path [] buffer sunk script = Inr (buffer, sunk, script)"
| "users_loop output_path (username # usernames) buffer sunk script =
     andthen (fetch_user_repos username script) (\<lambda>(user_repos, script').
       let buffer' = buffer @ user_repos;
           sunk' = (if output_path \<and> int (length buffer') mod 100 = 0
                    then save_progress buffer' sunk else sunk)
       in users_loop output_path usernames buffer' sunk' script')"

text \<open>
  \<^verbatim>\<open>fetch_repos_for_users\<close>: the empty buffer of line 402, the loop, the final save of
  lines 427-428.
\<close>

definition fetch_repos_for_users ::
  "json list \<Rightarrow> string option \<Rightarrow> transport \<Rightarrow> exn + (repo list \<times> repo list list \<times> transport)" where
  "fetch_repos_for_users usernames output_path script =
     andthen (users_loop (output_path \<noteq> None) usernames [] [] script)
       (\<lambda>(buffer, sunk, script').
          Inr (buffer,
               if output_path \<noteq> None then save_progress buffer sunk else sunk,
               script'))"

text \<open>\<^verbatim>\<open>fetch_by_location_two_step\<close> (lines 580-600).\<close>

definition fetch_by_location_two_step ::
  "int \<Rightarrow> string \<Rightarrow> bool \<Rightarrow> int option \<Rightarrow> string option \<Rightarrow> transport \<Rightarrow>
     exn + (repo list \<times> repo list list \<times> transport)" where
  "fetch_by_location_two_step today location include_orgs max_users output_path script =
     andthen (fetch_users_by_location today location include_orgs max_users script)
       (\<lambda>(usernames, script').
          if usernames = [] then Inr ([], [], script')
          else fetch_repos_for_users usernames output_path script')"



declare user_repos_loop.simps [simp del]














end
